theory Spec2Isabelle
  imports Complex_Main "HOL-Library.AList"
begin

section \<open>Newton's rings simulation: the travelling microscope and the ring geometry\<close>

text \<open>
  The development embeds the stateful core of \<^verbatim>\<open>newton_rings_simulation.py\<close>: the class
  \<^verbatim>\<open>TravelingMicroscope\<close> and the measurement arithmetic of \<^verbatim>\<open>NewtonRingsSimulation\<close>.

  Conventions of the embedding.
  \<^item> A Python \<^verbatim>\<open>float\<close> is a \<^typ>\<open>real\<close>: arithmetic is exact, so the theorems speak of the
    formulas the code evaluates, not of the rounding of IEEE doubles. Concrete inputs are
    chosen with margins far above double rounding error.
  \<^item> The wall clock (\<^verbatim>\<open>time.time()\<close>), the random sample (\<^verbatim>\<open>random.triangular\<close>) and the
    formatted time stamp are inputs of the operations that read them.
  \<^item> A \<^verbatim>\<open>dict\<close> is an association list in insertion order; \<^const>\<open>AList.update\<close>
    overwrites the value of a present key in place and appends an absent one, as a Python
    dictionary does.
  \<^item> An exception is a value of \<open>py_error\<close>; a method that mutates the object before it
    raises returns the mutated state together with the error.
\<close>

subsection \<open>Python primitives\<close>

datatype py_error = ZeroDivisionError | ValueError | TypeError | StopIteration | IndexError

text \<open>\<^verbatim>\<open>float('inf')\<close> and the finite floats it is compared with.\<close>

datatype efloat = Finite real | Infinity

fun lt_efloat :: "real \<Rightarrow> efloat \<Rightarrow> bool" where
  "lt_efloat x Infinity = True"
| "lt_efloat x (Finite y) = (x < y)"

fun efloat_lt :: "efloat \<Rightarrow> real \<Rightarrow> bool" where
  "efloat_lt Infinity y = False"
| "efloat_lt (Finite x) y = (x < y)"

text \<open>
  \<^verbatim>\<open>round(x, n)\<close> on a float rounds to the nearest multiple of \<open>10\<^sup>-\<^sup>n\<close>, a tie going to the
  even neighbour.
\<close>

definition round_half_even :: "real \<Rightarrow> int" where
  "round_half_even y =
     (let f = \<lfloor>y\<rfloor>; d = y - of_int f
      in if d < 1 / 2 then f
         else if 1 / 2 < d then f + 1
         else if even f then f else f + 1)"

definition py_round :: "real \<Rightarrow> nat \<Rightarrow> real" where
  "py_round x n = of_int (round_half_even (x * 10 ^ n)) / 10 ^ n"

subsection \<open>Data model\<close>

text \<open>The dictionary \<^verbatim>\<open>current_reading\<close> built by \<^verbatim>\<open>take_measurement\<close>.\<close>

record reading =
  rd_position :: real
  rd_closest_ring :: "nat option"
  rd_second_closest_ring :: "nat option"
  rd_distance_from_ring :: efloat
  rd_reading :: real
  rd_precision :: string
  rd_velocity :: real
  rd_noise_estimate :: real
  rd_timestamp :: string
  rd_alignment_quality :: real

text \<open>
  The attributes of \<^verbatim>\<open>TravelingMicroscope\<close>. \<open>normal_step_size\<close> is the attribute
  \<^verbatim>\<open>_normal_step_size\<close>, \<open>None\<close> while \<^verbatim>\<open>hasattr\<close> is false. The \<^verbatim>\<open>parent\<close> reference is
  kept outside the record: the operations that follow it take and return the parent.
\<close>

record microscope =
  position :: real
  max_position :: real
  step_size :: real
  current_reading :: "reading option"
  is_measuring :: bool
  measurements :: "(real \<times> reading) list"
  movement_history :: "(string \<times> real \<times> real) list"
  precision_mode :: bool
  sub_pixel_positions :: "(real \<times> real) list"
  last_update_time :: real
  velocity :: real
  acceleration :: real
  movement_smoothness :: real
  normal_step_size :: "real option"

text \<open>\<^verbatim>\<open>TravelingMicroscope.__init__(max_position)\<close>, constructed when the clock reads \<open>now\<close>.\<close>

definition init_microscope :: "real \<Rightarrow> real \<Rightarrow> microscope" where
  "init_microscope maxpos now =
     \<lparr> position = 0, max_position = maxpos, step_size = 1 / 10, current_reading = None,
       is_measuring = False, measurements = [], movement_history = [],
       precision_mode = False, sub_pixel_positions = [], last_update_time = now,
       velocity = 0, acceleration = 0, movement_smoothness = 8 / 10,
       normal_step_size = None \<rparr>"

subsection \<open>Motion\<close>

text \<open>\<^verbatim>\<open>xs.append(x); if len(xs) > n: xs.pop(0)\<close>\<close>

definition append_bounded :: "nat \<Rightarrow> 'a \<Rightarrow> 'a list \<Rightarrow> 'a list" where
  "append_bounded n x xs = (let ys = xs @ [x] in if length ys > n then tl ys else ys)"

definition move_left :: "real \<Rightarrow> real \<Rightarrow> microscope \<Rightarrow> bool \<times> microscope" where
  "move_left factor current_time m =
     (if position m > - max_position m then
        let dt = min (1 / 10) (current_time - last_update_time m);
            actual_step = step_size m * factor;
            actual_step = (if precision_mode m then actual_step / 10 else actual_step);
            target_velocity = - actual_step * 10;
            v = velocity m * movement_smoothness m
                  + target_velocity * (1 - movement_smoothness m);
            new_position = position m + v * dt;
            clamped = new_position < - max_position m;
            new_position = (if clamped then - max_position m else new_position);
            v = (if clamped then 0 else v);
            actual_change = new_position - position m
        in (True,
            m\<lparr> last_update_time := current_time, velocity := v, position := new_position,
               sub_pixel_positions :=
                 append_bounded 20 (new_position, current_time) (sub_pixel_positions m),
               movement_history :=
                 append_bounded 15 (''left'', \<bar>actual_change\<bar>, current_time)
                   (movement_history m) \<rparr>)
      else (False, m\<lparr> velocity := velocity m * (1 / 2) \<rparr>))"

definition move_right :: "real \<Rightarrow> real \<Rightarrow> microscope \<Rightarrow> bool \<times> microscope" where
  "move_right factor current_time m =
     (if position m < max_position m then
        let dt = min (1 / 10) (current_time - last_update_time m);
            actual_step = step_size m * factor;
            actual_step = (if precision_mode m then actual_step / 10 else actual_step);
            target_velocity = actual_step * 10;
            v = velocity m * movement_smoothness m
                  + target_velocity * (1 - movement_smoothness m);
            new_position = position m + v * dt;
            clamped = new_position > max_position m;
            new_position = (if clamped then max_position m else new_position);
            v = (if clamped then 0 else v);
            actual_change = new_position - position m
        in (True,
            m\<lparr> last_update_time := current_time, velocity := v, position := new_position,
               sub_pixel_positions :=
                 append_bounded 20 (new_position, current_time) (sub_pixel_positions m),
               movement_history :=
                 append_bounded 15 (''right'', \<bar>actual_change\<bar>, current_time)
                   (movement_history m) \<rparr>)
      else (False, m\<lparr> velocity := velocity m * (1 / 2) \<rparr>))"

subsection \<open>Step size and precision mode\<close>

definition increase_step_size :: "microscope \<Rightarrow> real \<times> microscope" where
  "increase_step_size m =
     (if step_size m < 2 then
        let s = (if step_size m < 1 / 10 then step_size m * (125 / 100)
                 else if step_size m < 5 / 10 then step_size m * (12 / 10)
                 else step_size m * (115 / 100));
            s = py_round s 3
        in (s, m\<lparr> step_size := s \<rparr>)
      else (step_size m, m))"

definition decrease_step_size :: "microscope \<Rightarrow> real \<times> microscope" where
  "decrease_step_size m =
     (if step_size m > 1 / 1000 then
        let s = (if step_size m \<le> 1 / 10 then max (1 / 1000) (step_size m * (8 / 10))
                 else if step_size m \<le> 5 / 10 then step_size m * (85 / 100)
                 else step_size m * (9 / 10));
            s = py_round s 3
        in (s, m\<lparr> step_size := s \<rparr>)
      else (step_size m, m))"

definition toggle_precision_mode :: "microscope \<Rightarrow> bool \<times> microscope" where
  "toggle_precision_mode m =
     (let m = m\<lparr> precision_mode := \<not> precision_mode m \<rparr>;
          m = (if precision_mode m then
                 m\<lparr> normal_step_size := Some (step_size m),
                    step_size := max (1 / 1000) (step_size m / 10),
                    velocity := 0,
                    movement_smoothness := 9 / 10 \<rparr>
               else
                 m\<lparr> step_size := (case normal_step_size m of
                                     Some s \<Rightarrow> s | None \<Rightarrow> step_size m),
                    velocity := 0,
                    movement_smoothness := 8 / 10 \<rparr>);
          m = m\<lparr> step_size := py_round (step_size m) 3 \<rparr>
      in (precision_mode m, m))"

text \<open>The step size is a multiple of 0.001: \<^verbatim>\<open>round(step_size, 3)\<close> leaves it as it is.\<close>

definition step_rounded :: "microscope \<Rightarrow> bool" where
  "step_rounded m \<longleftrightarrow> py_round (step_size m) 3 = step_size m"

text \<open>
  The scaling of \<^verbatim>\<open>increase_step_size\<close> and of \<^verbatim>\<open>decrease_step_size\<close> before the rounding,
  as functions of the step size.
\<close>

definition increased :: "real \<Rightarrow> real" where
  "increased s = (if s < 1 / 10 then s * (125 / 100)
                  else if s < 5 / 10 then s * (12 / 10) else s * (115 / 100))"

definition decreased :: "real \<Rightarrow> real" where
  "decreased s = (if s \<le> 1 / 10 then max (1 / 1000) (s * (8 / 10))
                  else if s \<le> 5 / 10 then s * (85 / 100) else s * (9 / 10))"

text \<open>A sequence of key commands, each move carrying its factor and the clock reading.\<close>

datatype command =
  MoveLeft real real | MoveRight real real | IncreaseStep | DecreaseStep | TogglePrecision

fun exec :: "command \<Rightarrow> microscope \<Rightarrow> microscope" where
  "exec (MoveLeft factor t) m = snd (move_left factor t m)"
| "exec (MoveRight factor t) m = snd (move_right factor t m)"
| "exec IncreaseStep m = snd (increase_step_size m)"
| "exec DecreaseStep m = snd (decrease_step_size m)"
| "exec TogglePrecision m = snd (toggle_precision_mode m)"

definition run :: "command list \<Rightarrow> microscope \<Rightarrow> microscope" where
  "run cs m = fold exec cs m"

text \<open>
  The keys of a session in manual input mode, where every move has the factor 1 and the
  keys are at least 0.1 s apart: nineteen times \<^verbatim>\<open>+\<close>, then eighteen times \<^verbatim>\<open>d\<close>.
\<close>

definition manual_keys :: "command list" where
  "manual_keys =
     replicate 19 IncreaseStep @ map (\<lambda>k. MoveRight 1 (real k / 10)) [1 ..< 19]"

subsection \<open>The owning session\<close>

text \<open>The attributes of \<^verbatim>\<open>NewtonRingsSimulation\<close> other than the microscope itself.\<close>

record session =
  wavelength :: real
  refractive_index :: real
  radius_of_curvature :: real
  ring_measurements :: "(nat \<times> real) list"
  current_ring :: nat
  left_measurements :: "(nat \<times> real) list"
  right_measurements :: "(nat \<times> real) list"
  ring_radii :: "real list"

definition MAX_RINGS :: nat where
  "MAX_RINGS = 15"

definition py_div :: "real \<Rightarrow> real \<Rightarrow> py_error + real" where
  "py_div a b = (if b = 0 then Inl ZeroDivisionError else Inr (a / b))"

definition py_sqrt :: "real \<Rightarrow> py_error + real" where
  "py_sqrt x = (if x < 0 then Inl ValueError else Inr (sqrt x))"

text \<open>The body of the loop of \<^verbatim>\<open>calculate_ring_radii\<close> for one ring order.\<close>

definition ring_radius :: "session \<Rightarrow> nat \<Rightarrow> py_error + real" where
  "ring_radius s m =
     (if m = 0 then Inr 0
      else case py_div (real m * wavelength s * radius_of_curvature s) (refractive_index s) of
             Inl e \<Rightarrow> Inl e
           | Inr q \<Rightarrow> (case py_sqrt q of
                         Inl e \<Rightarrow> Inl e
                       | Inr physical_radius \<Rightarrow> Inr (physical_radius / 1000000)))"

fun radii_loop :: "nat list \<Rightarrow> session \<Rightarrow> py_error option \<times> session" where
  "radii_loop [] s = (None, s)"
| "radii_loop (m # ms) s =
     (case ring_radius s m of
        Inl e \<Rightarrow> (Some e, s)
      | Inr r \<Rightarrow> radii_loop ms (s\<lparr> ring_radii := ring_radii s @ [r] \<rparr>))"

definition calculate_ring_radii :: "session \<Rightarrow> py_error option \<times> session" where
  "calculate_ring_radii s = radii_loop [0 ..< MAX_RINGS + 1] (s\<lparr> ring_radii := [] \<rparr>)"

text \<open>
  The wavelength that \<^verbatim>\<open>display_microscope_view\<close> derives from the tabulated radius of
  the ring of a reading.
\<close>

definition calculated_wavelength :: "session \<Rightarrow> nat \<Rightarrow> py_error + real" where
  "calculated_wavelength s ring_number =
     (if ring_number < length (ring_radii s) then
        let ring_radius = ring_radii s ! ring_number
        in case py_div (ring_radius ^ 2 * refractive_index s)
                  (real ring_number * radius_of_curvature s / 10 ^ 7) of
             Inl e \<Rightarrow> Inl e
           | Inr w \<Rightarrow> Inr (w * 1000000)
      else Inl IndexError)"

subsection \<open>Radius of curvature from the measurements\<close>

datatype radius_report = Insufficient | Calculated real

text \<open>
  The rings of \<^verbatim>\<open>sorted(self.left_measurements.keys())\<close> that are also keys of
  \<^verbatim>\<open>right_measurements\<close>, each with its squared diameter.
\<close>

definition valid_pairs :: "session \<Rightarrow> (nat \<times> real) list" where
  "valid_pairs s =
     List.map_filter
       (\<lambda>ring. case (map_of (left_measurements s) ring, map_of (right_measurements s) ring) of
                 (Some l, Some r) \<Rightarrow> Some (ring, \<bar>r - l\<bar> ^ 2)
               | _ \<Rightarrow> None)
       (sort (map fst (left_measurements s)))"

definition calculate_radius_from_measurements ::
    "session \<Rightarrow> (py_error + radius_report) \<times> session" where
  "calculate_radius_from_measurements s =
     (let valid_rings = map fst (valid_pairs s);
          diameters_squared = map snd (valid_pairs s)
      in if length valid_rings < 2 then (Inr Insufficient, s)
         else
           let n = real (length valid_rings);
               sum_x = sum_list (map real valid_rings);
               sum_y = sum_list diameters_squared;
               sum_xy = sum_list (map2 (\<lambda>x y. real x * y) valid_rings diameters_squared);
               sum_x_squared = sum_list (map (\<lambda>x. real x ^ 2) valid_rings)
           in case py_div (n * sum_xy - sum_x * sum_y) (n * sum_x_squared - sum_x ^ 2) of
                Inl e \<Rightarrow> (Inl e, s)
              | Inr slope \<Rightarrow>
                  (case py_div slope (wavelength s * (1 / 10 ^ 7)) of
                     Inl e \<Rightarrow> (Inl e, s)
                   | Inr calculated_radius \<Rightarrow> (Inr (Calculated calculated_radius), s)))"

subsection \<open>Taking a measurement\<close>

record scan_state =
  closest_ring :: "nat option"
  min_distance :: efloat
  second_closest :: "nat option"
  second_min_distance :: efloat

definition scan_step :: "real \<Rightarrow> nat \<times> real \<Rightarrow> scan_state \<Rightarrow> scan_state" where
  "scan_step pos = (\<lambda>(ring_num, radius) st.
     let distance = \<bar>\<bar>pos\<bar> - radius\<bar>
     in if lt_efloat distance (min_distance st) then
          st\<lparr> second_closest := closest_ring st,
              second_min_distance := min_distance st,
              min_distance := Finite distance,
              closest_ring := Some ring_num \<rparr>
        else if lt_efloat distance (second_min_distance st) then
          st\<lparr> second_min_distance := Finite distance, second_closest := Some ring_num \<rparr>
        else st)"

definition scan_rings :: "real \<Rightarrow> real list \<Rightarrow> scan_state" where
  "scan_rings pos radii =
     fold (scan_step pos) (enumerate 0 radii)
       \<lparr> closest_ring = None, min_distance = Infinity,
         second_closest = None, second_min_distance = Infinity \<rparr>"

definition measurement_velocity :: "(real \<times> real) list \<Rightarrow> real" where
  "measurement_velocity sp =
     (if length sp \<ge> 2 then
        let recent_positions = drop (length sp - 2) sp;
            pos_diff = fst (recent_positions ! 1) - fst (recent_positions ! 0);
            time_diff = snd (recent_positions ! 1) - snd (recent_positions ! 0)
        in if time_diff > 0 then pos_diff / time_diff else 0
      else 0)"

definition measurement_quality :: "efloat \<Rightarrow> real \<Rightarrow> string" where
  "measurement_quality d v =
     (if efloat_lt d (1 / 1000) \<and> \<bar>v\<bar> < 1 / 1000 then ''Ultra-High''
      else if efloat_lt d (1 / 100) \<and> \<bar>v\<bar> < 1 / 100 then ''Very High''
      else if efloat_lt d (5 / 100) \<and> \<bar>v\<bar> < 5 / 100 then ''High''
      else if efloat_lt d (1 / 10) \<and> \<bar>v\<bar> < 1 / 10 then ''Good''
      else ''Standard'')"

text \<open>
  \<^verbatim>\<open>take_measurement(ring_radii)\<close> in two parts. The first is the dictionary the method
  builds, from the scan of the radii to the quality label; \<open>tri\<close> is the value of
  \<^verbatim>\<open>random.triangular(-1.0, 1.0, 0.0)\<close> and \<open>ts\<close> the formatted time.
\<close>

definition measurement_reading :: "real list \<Rightarrow> real \<Rightarrow> string \<Rightarrow> microscope \<Rightarrow> reading" where
  "measurement_reading radii tri ts m =
     (let st = scan_rings (position m) radii;
          alignment = (case min_distance st of
                         Infinity \<Rightarrow> 1 | Finite d \<Rightarrow> min 1 (d * 100));
          base_noise = (if precision_mode m then (1 / 100) * (1 / 10) else 1 / 100);
          noise_scale = (if efloat_lt (min_distance st) (1 / 1000) then 1 / 100
                         else if efloat_lt (min_distance st) (1 / 100) then 1 / 10
                         else if efloat_lt (min_distance st) (1 / 10) then 2 / 10
                         else 1);
          noise = tri * base_noise * noise_scale;
          v = measurement_velocity (sub_pixel_positions m);
          quality = measurement_quality (min_distance st) v
      in \<lparr> rd_position = position m,
           rd_closest_ring = closest_ring st,
           rd_second_closest_ring = second_closest st,
           rd_distance_from_ring = min_distance st,
           rd_reading = position m + noise,
           rd_precision = quality,
           rd_velocity = v,
           rd_noise_estimate = base_noise * noise_scale,
           rd_timestamp = ts,
           rd_alignment_quality = 100 - alignment \<rparr>)"

text \<open>
  The second part stores the reading and follows the \<^verbatim>\<open>parent\<close> reference. The comparison
  \<^verbatim>\<open>closest_ring > 0\<close> raises on \<^verbatim>\<open>None\<close>, after the record has been stored.
\<close>

definition take_measurement ::
    "real list \<Rightarrow> real \<Rightarrow> string \<Rightarrow> microscope \<times> session option
       \<Rightarrow> (py_error + reading) \<times> (microscope \<times> session option)" where
  "take_measurement radii tri ts = (\<lambda>(m, parent).
     let rd = measurement_reading radii tri ts m;
         position_key = py_round (position m) 9;
         m' = m\<lparr> current_reading := Some rd,
                 measurements := AList.update position_key rd (measurements m) \<rparr>
     in case parent of
          None \<Rightarrow> (Inr rd, (m', None))
        | Some p \<Rightarrow>
            (case rd_closest_ring rd of
               None \<Rightarrow> (Inl TypeError, (m', Some p))
             | Some c \<Rightarrow>
                 if c > 0 then
                   if position m < 0 then
                     (Inr rd, (m', Some (p\<lparr> left_measurements :=
                                 AList.update c (position m) (left_measurements p) \<rparr>)))
                   else
                     (Inr rd, (m', Some (p\<lparr> right_measurements :=
                                 AList.update c (position m) (right_measurements p) \<rparr>)))
                 else (Inr rd, (m', Some p))))"

text \<open>The microscope and the parent as a call of \<^verbatim>\<open>take_measurement\<close> leaves them.\<close>

abbreviation microscope_after ::
    "real list \<Rightarrow> real \<Rightarrow> string \<Rightarrow> microscope \<Rightarrow> session option \<Rightarrow> microscope" where
  "microscope_after radii tri ts m parent \<equiv> fst (snd (take_measurement radii tri ts (m, parent)))"

abbreviation parent_after ::
    "real list \<Rightarrow> real \<Rightarrow> string \<Rightarrow> microscope \<Rightarrow> session option \<Rightarrow> session option" where
  "parent_after radii tri ts m parent \<equiv> snd (snd (take_measurement radii tri ts (m, parent)))"

text \<open>A session with its two measurement dictionaries blanked out.\<close>

definition without_sides :: "session \<Rightarrow> session" where
  "without_sides p = p\<lparr> left_measurements := [], right_measurements := [] \<rparr>"

subsection \<open>Reachable microscope states\<close>

text \<open>
  The states a microscope passes through: the constructor, then the methods and the two
  places where the session clears the stored measurements.
\<close>

inductive reachable :: "microscope \<Rightarrow> bool" where
  reach_init: "reachable (init_microscope maxpos now)"
| reach_left: "reachable m \<Longrightarrow> reachable (snd (move_left factor t m))"
| reach_right: "reachable m \<Longrightarrow> reachable (snd (move_right factor t m))"
| reach_increase: "reachable m \<Longrightarrow> reachable (snd (increase_step_size m))"
| reach_decrease: "reachable m \<Longrightarrow> reachable (snd (decrease_step_size m))"
| reach_toggle: "reachable m \<Longrightarrow> reachable (snd (toggle_precision_mode m))"
| reach_measure:
    "reachable m \<Longrightarrow> reachable (fst (snd (take_measurement radii tri ts (m, parent))))"
| reach_clear: "reachable m \<Longrightarrow> reachable (m\<lparr> measurements := [] \<rparr>)"
| reach_reset:
    "reachable m \<Longrightarrow> reachable (m\<lparr> measurements := [], current_reading := None \<rparr>)"

subsection \<open>Choosing the pair of positions of a ring\<close>

text \<open>
  \<^verbatim>\<open>display_microscope_measurements\<close> walks the stored readings in the order of their
  sorted keys. \<open>ring_left\<close> and \<open>ring_right\<close> are the lists
  \<^verbatim>\<open>ring_measurements[ring]['left']\<close> and \<^verbatim>\<open>ring_measurements[ring]['right']\<close> that its
  grouping loop builds.
\<close>

definition sorted_readings :: "microscope \<Rightarrow> reading list" where
  "sorted_readings m =
     List.map_filter (map_of (measurements m)) (sort (map fst (measurements m)))"

definition ring_left :: "reading list \<Rightarrow> nat \<Rightarrow> real list" where
  "ring_left rs ring =
     map rd_position (filter (\<lambda>r. rd_closest_ring r = Some ring \<and> rd_position r < 0) rs)"

definition ring_right :: "reading list \<Rightarrow> nat \<Rightarrow> real list" where
  "ring_right rs ring =
     map rd_position
       (filter (\<lambda>r. rd_closest_ring r = Some ring \<and> \<not> rd_position r < 0) rs)"

text \<open>
  The loop that groups the positions of one side by the precision label of their reading;
  \<^verbatim>\<open>next(...)\<close> raises when no reading has the position.
\<close>

fun group_by_precision ::
    "reading list \<Rightarrow> real list \<Rightarrow> (string \<times> real list) list
       \<Rightarrow> py_error + (string \<times> real list) list" where
  "group_by_precision rs [] acc = Inr acc"
| "group_by_precision rs (pos # ps) acc =
     (case find (\<lambda>r. rd_position r = pos) rs of
        None \<Rightarrow> Inl StopIteration
      | Some r \<Rightarrow>
          group_by_precision rs ps
            (AList.update (rd_precision r)
               ((case map_of acc (rd_precision r) of None \<Rightarrow> [] | Some l \<Rightarrow> l) @ [pos])
               acc))"

fun py_max :: "real list \<Rightarrow> py_error + real" where
  "py_max [] = Inl ValueError"
| "py_max (x # xs) = Inr (fold max xs x)"

fun py_min :: "real list \<Rightarrow> py_error + real" where
  "py_min [] = Inl ValueError"
| "py_min (x # xs) = Inr (fold min xs x)"

definition pick :: "real list \<Rightarrow> real list \<Rightarrow> string
    \<Rightarrow> py_error + (real \<times> real \<times> string) option" where
  "pick ls rs label =
     (case py_max ls of
        Inl e \<Rightarrow> Inl e
      | Inr left_pos \<Rightarrow>
          (case py_min rs of
             Inl e \<Rightarrow> Inl e
           | Inr right_pos \<Rightarrow> Inr (Some (left_pos, right_pos, label))))"

text \<open>
  The body of the loop over the rings: \<open>None\<close> when the ring is skipped, otherwise
  \<^verbatim>\<open>(left_pos, right_pos, precision_type)\<close>.
\<close>

definition best_pair :: "reading list \<Rightarrow> nat
    \<Rightarrow> py_error + (real \<times> real \<times> string) option" where
  "best_pair rs ring =
     (if ring_left rs ring \<noteq> [] \<and> ring_right rs ring \<noteq> [] \<and> ring > 0 then
        case group_by_precision rs (ring_left rs ring) [] of
          Inl e \<Rightarrow> Inl e
        | Inr lm \<Rightarrow>
            (case group_by_precision rs (ring_right rs ring) [] of
               Inl e \<Rightarrow> Inl e
             | Inr rm \<Rightarrow>
                 (case (map_of lm ''Ultra-High'', map_of rm ''Ultra-High'') of
                    (Some a, Some b) \<Rightarrow> pick a b ''Ultra-High''
                  | _ \<Rightarrow>
                 (case (map_of lm ''Very High'', map_of rm ''Very High'') of
                    (Some a, Some b) \<Rightarrow> pick a b ''Very High''
                  | _ \<Rightarrow>
                 (case (map_of lm ''High'', map_of rm ''High'') of
                    (Some a, Some b) \<Rightarrow> pick a b ''High''
                  | _ \<Rightarrow> pick (ring_left rs ring) (ring_right rs ring) ''Standard''))))
      else Inr None)"

text \<open>
  The selection in the words of the specification: the label of a position is the label
  of its reading, a tier is present on a side when some position of the side carries it,
  and the pair comes from the first tier of the given order present on both sides.
\<close>

definition label_of :: "reading list \<Rightarrow> real \<Rightarrow> string option" where
  "label_of rs pos = map_option rd_precision (find (\<lambda>r. rd_position r = pos) rs)"

definition in_tier :: "reading list \<Rightarrow> string \<Rightarrow> real list \<Rightarrow> real list" where
  "in_tier rs tier ps = filter (\<lambda>pos. label_of rs pos = Some tier) ps"

definition tier_choice :: "string list \<Rightarrow> reading list \<Rightarrow> nat \<Rightarrow> string option" where
  "tier_choice tiers rs ring =
     find (\<lambda>tier. in_tier rs tier (ring_left rs ring) \<noteq> []
                 \<and> in_tier rs tier (ring_right rs ring) \<noteq> []) tiers"

definition spec_best_pair :: "reading list \<Rightarrow> nat \<Rightarrow> (real \<times> real \<times> string) option" where
  "spec_best_pair rs ring =
     (case tier_choice [''Ultra-High'', ''Very High'', ''High'', ''Good'', ''Standard''] rs ring of
        None \<Rightarrow> None
      | Some tier \<Rightarrow>
          Some (Max (set (in_tier rs tier (ring_left rs ring))),
                Min (set (in_tier rs tier (ring_right rs ring))), tier))"

text \<open>
  The selection as amended: three tiers, and below them the extreme positions of the
  whole ring under the label \<open>Standard\<close>.
\<close>

definition amended_best_pair :: "reading list \<Rightarrow> nat \<Rightarrow> real \<times> real \<times> string" where
  "amended_best_pair rs ring =
     (case tier_choice [''Ultra-High'', ''Very High'', ''High''] rs ring of
        None \<Rightarrow> (Max (set (ring_left rs ring)), Min (set (ring_right rs ring)), ''Standard'')
      | Some tier \<Rightarrow>
          (Max (set (in_tier rs tier (ring_left rs ring))),
           Min (set (in_tier rs tier (ring_right rs ring))), tier))"

subsection \<open>Sessions used in the properties\<close>

text \<open>
  The attributes that \<^verbatim>\<open>NewtonRingsSimulation.__init__\<close> sets before it calls
  \<^verbatim>\<open>calculate_ring_radii\<close>: sodium light of 589.3 nm, air, a radius of curvature of 100 cm.
\<close>

definition default_session :: session where
  "default_session =
     \<lparr> wavelength = 5893 / 10, refractive_index = 1, radius_of_curvature = 100 * 10 ^ 7,
       ring_measurements = [], current_ring = 0, left_measurements = [],
       right_measurements = [], ring_radii = [] \<rparr>"

text \<open>The radius of ring \<open>m\<close> in mm, as the formula of the specification gives it.\<close>

definition radius_mm :: "session \<Rightarrow> nat \<Rightarrow> real" where
  "radius_mm s m =
     (if m = 0 then 0
      else sqrt (real m * wavelength s * radius_of_curvature s / refractive_index s) / 1000000)"

text \<open>The parameters the session accepts are positive.\<close>

definition physical :: "session \<Rightarrow> bool" where
  "physical s \<longleftrightarrow> 0 < wavelength s \<and> 0 < radius_of_curvature s \<and> 0 < refractive_index s"

text \<open>
  The default session with noise-free measurements of the rings 5 and 10: the left position
  of a ring is minus its tabulated radius, the right position the radius.
\<close>

definition synthetic_session :: session where
  "synthetic_session =
     (let s = snd (calculate_ring_radii default_session)
      in s\<lparr> left_measurements := [(5, - ring_radii s ! 5), (10, - ring_radii s ! 10)],
            right_measurements := [(5, ring_radii s ! 5), (10, ring_radii s ! 10)] \<rparr>)"

text \<open>A session in which ring 5 alone has been measured on both sides.\<close>

definition one_ring_session :: session where
  "one_ring_session =
     default_session\<lparr> left_measurements := [(5, - 17 / 10), (6, - 19 / 10)],
                      right_measurements := [(5, 17 / 10), (7, 2)] \<rparr>"

text \<open>The list stored under a label in a grouping dictionary, empty when the label is absent.\<close>

definition entries :: "(string \<times> real list) list \<Rightarrow> string \<Rightarrow> real list" where
  "entries acc t = (case map_of acc t of None \<Rightarrow> [] | Some l \<Rightarrow> l)"

text \<open>
  A microscope that has taken three measurements near ring 2 of the radii
  \<open>[0, 1, 2, 3]\<close>: at -2.06 and at 2.06 (0.06 from the ring, label \<open>Good\<close>) and at -1.85
  (0.15 from the ring, label \<open>Standard\<close>).
\<close>

definition three_measurements :: microscope where
  "three_measurements =
     (let m0 = init_microscope 30 0;
          m1 = microscope_after [0, 1, 2, 3] 0 ''12:00:00'' (m0\<lparr> position := - (103 / 50) \<rparr>) None;
          m2 = microscope_after [0, 1, 2, 3] 0 ''12:00:01'' (m1\<lparr> position := - (37 / 20) \<rparr>) None
      in microscope_after [0, 1, 2, 3] 0 ''12:00:02'' (m2\<lparr> position := 103 / 50 \<rparr>) None)"

section \<open>Properties\<close>

subsection \<open>Rounding\<close>

lemma round_half_even_of_int: "round_half_even (of_int k) = k"
  by (simp add: round_half_even_def)

lemma round_half_even_bounds:
  "\<lfloor>y\<rfloor> \<le> round_half_even y \<and> round_half_even y \<le> \<lfloor>y\<rfloor> + 1"
  by (simp add: round_half_even_def Let_def)

lemma round_half_even_mono:
  assumes "x \<le> y"
  shows "round_half_even x \<le> round_half_even y"
proof (cases "\<lfloor>x\<rfloor> = \<lfloor>y\<rfloor>")
  case True
  with assms have "x - of_int \<lfloor>x\<rfloor> \<le> y - of_int \<lfloor>y\<rfloor>" by simp
  with True show ?thesis
    by (auto simp: round_half_even_def Let_def)
next
  case False
  from assms have "\<lfloor>x\<rfloor> \<le> \<lfloor>y\<rfloor>" by (rule floor_mono)
  with False have "\<lfloor>x\<rfloor> + 1 \<le> \<lfloor>y\<rfloor>" by simp
  with round_half_even_bounds[of x] round_half_even_bounds[of y] show ?thesis by linarith
qed

lemma py_round_idem: "py_round (py_round x n) n = py_round x n"
  by (simp add: py_round_def round_half_even_of_int)

lemma py_round_mono: "x \<le> y \<Longrightarrow> py_round x n \<le> py_round y n"
  by (simp add: py_round_def divide_right_mono round_half_even_mono mult_right_mono)

lemma py_round_of_int: "py_round (of_int k / 10 ^ n) n = of_int k / 10 ^ n"
  by (simp add: py_round_def round_half_even_of_int)

lemma py_round_lower: "1 / 1000 \<le> x \<Longrightarrow> 1 / 1000 \<le> py_round x 3"
  using py_round_mono[of "1 / 1000" x 3] py_round_of_int[of 1 3] by simp

lemma py_round_upper: "x \<le> 23 / 10 \<Longrightarrow> py_round x 3 \<le> 23 / 10"
  using py_round_mono[of x "23 / 10" 3] py_round_of_int[of 2300 3] by simp

subsection \<open>Running command sequences\<close>

lemma run_Nil: "run [] m = m"
  by (simp add: run_def)

lemma run_Cons: "run (c # cs) m = run cs (exec c m)"
  by (simp add: run_def)

lemma run_append: "run (xs @ ys) m = run ys (run xs m)"
  by (simp add: run_def)

lemma run_snoc: "run (cs @ [c]) m = exec c (run cs m)"
  by (simp add: run_def)

subsection \<open>Travel limits\<close>

text \<open>
  Each move guards the limit of its own direction: a move to the left never ends below
  \<open>- max_position\<close>, a move to the right never above \<open>max_position\<close>.
\<close>

lemma move_left_max_position: "max_position (snd (move_left factor t m)) = max_position m"
  by (simp add: move_left_def Let_def)

lemma move_right_max_position: "max_position (snd (move_right factor t m)) = max_position m"
  by (simp add: move_right_def Let_def)

lemma move_left_lower_limit:
  "- max_position m \<le> position m \<Longrightarrow> - max_position m \<le> position (snd (move_left factor t m))"
  by (simp add: move_left_def Let_def)

lemma move_right_upper_limit:
  "position m \<le> max_position m \<Longrightarrow> position (snd (move_right factor t m)) \<le> max_position m"
  by (simp add: move_right_def Let_def)

lemma move_left_clamps:
  assumes "- max_position m < position m"
    and "position m + (velocity m * movement_smoothness m
           + - (if precision_mode m then step_size m * factor / 10 else step_size m * factor)
               * 10 * (1 - movement_smoothness m))
          * min (1 / 10) (t - last_update_time m) < - max_position m"
  shows "position (snd (move_left factor t m)) = - max_position m
    \<and> velocity (snd (move_left factor t m)) = 0"
  using assms by (simp add: move_left_def Let_def)

lemma move_right_clamps:
  assumes "position m < max_position m"
    and "max_position m < position m + (velocity m * movement_smoothness m
           + (if precision_mode m then step_size m * factor / 10 else step_size m * factor)
               * 10 * (1 - movement_smoothness m))
          * min (1 / 10) (t - last_update_time m)"
  shows "position (snd (move_right factor t m)) = max_position m
    \<and> velocity (snd (move_right factor t m)) = 0"
  using assms by (simp add: move_right_def Let_def)

text \<open>
  C1. The claim is that after every call of a sequence of moves from the initial state the
  position lies in \<open>[- max_position, max_position]\<close>. The code does not keep it there:
  \<^verbatim>\<open>move_left\<close> compares the new position with the lower limit only, so a move to the left
  issued while the smoothed velocity still points to the right carries the position past
  the upper limit. From the initial state with \<open>max_position = 30\<close>, a move to the right
  with factor 1499 after 0.1 s ends at 29.98 with velocity 299.8, inside the range; the
  following move to the left with factor 0 after another 0.1 s ends at 53.964, with its
  velocity 239.84 not zeroed.
\<close>

theorem move_left_passes_upper_limit:
  "position (run [MoveRight 1499 (1 / 10)] (init_microscope 30 0)) = 1499 / 50
   \<and> velocity (run [MoveRight 1499 (1 / 10)] (init_microscope 30 0)) = 1499 / 5
   \<and> position (run [MoveRight 1499 (1 / 10), MoveLeft 0 (2 / 10)] (init_microscope 30 0))
       = 13491 / 250
   \<and> velocity (run [MoveRight 1499 (1 / 10), MoveLeft 0 (2 / 10)] (init_microscope 30 0))
       = 5996 / 25
   \<and> max_position (run [MoveRight 1499 (1 / 10), MoveLeft 0 (2 / 10)] (init_microscope 30 0))
       < position (run [MoveRight 1499 (1 / 10), MoveLeft 0 (2 / 10)] (init_microscope 30 0))"
  by (simp add: run_def move_left_def move_right_def init_microscope_def Let_def
      append_bounded_def)

subsection \<open>Step size\<close>

text \<open>
  The same happens with the default factor. After the keys \<open>manual_keys\<close> the microscope
  is at about 29.49, inside the range, with a velocity of about 20.6 to the right; one
  more key \<^verbatim>\<open>a\<close> (a move to the left) leaves it at about 30.72.
\<close>

lemma manual_keys_pass_upper_limit:
  "position (run manual_keys (init_microscope 30 0)) < 30
   \<and> 30 < position (run (manual_keys @ [MoveLeft 1 (19 / 10)]) (init_microscope 30 0))"
  by (simp add: manual_keys_def run_def upt_rec eval_nat_numeral increase_step_size_def
      move_left_def move_right_def init_microscope_def py_round_def round_half_even_def
      Let_def append_bounded_def)

subsection \<open>Step size\<close>

lemma increase_step_size_eq:
  "step_size (snd (increase_step_size m)) =
     (if step_size m < 2 then py_round (increased (step_size m)) 3 else step_size m)"
  by (simp add: increase_step_size_def Let_def increased_def)

lemma decrease_step_size_eq:
  "step_size (snd (decrease_step_size m)) =
     (if 1 / 1000 < step_size m then py_round (decreased (step_size m)) 3 else step_size m)"
  by (simp add: decrease_step_size_def Let_def decreased_def)

lemma increased_bounds:
  "1 / 1000 \<le> s \<Longrightarrow> 1 / 1000 \<le> increased s" "s < 2 \<Longrightarrow> increased s \<le> 23 / 10"
  by (simp_all add: increased_def)

lemma decreased_bounds:
  "1 / 1000 \<le> s \<Longrightarrow> 1 / 1000 \<le> decreased s" "1 / 1000 \<le> s \<Longrightarrow> s \<le> 23 / 10 \<Longrightarrow> decreased s \<le> 23 / 10"
  by (simp_all add: decreased_def max_def)

lemma py_round_minimum: "py_round (1 / 1000) 3 = 1 / 1000"
  by (simp add: py_round_def round_half_even_def)

lemma py_round_two: "py_round 2 3 = 2"
  by (simp add: py_round_def round_half_even_def)

lemma increase_step_size_lower:
  "1 / 1000 \<le> step_size m \<Longrightarrow> 1 / 1000 \<le> step_size (snd (increase_step_size m))"
  unfolding increase_step_size_eq using increased_bounds(1) py_round_lower by presburger

lemma decrease_step_size_lower:
  "1 / 1000 \<le> step_size m \<Longrightarrow> 1 / 1000 \<le> step_size (snd (decrease_step_size m))"
  unfolding decrease_step_size_eq using decreased_bounds(1) py_round_lower by presburger

lemma increase_step_size_upper:
  "step_size m \<le> 23 / 10 \<Longrightarrow> step_size (snd (increase_step_size m)) \<le> 23 / 10"
  unfolding increase_step_size_eq using increased_bounds(2) py_round_upper by presburger

lemma decrease_step_size_upper:
  "1 / 1000 \<le> step_size m \<Longrightarrow> step_size m \<le> 23 / 10 \<Longrightarrow> step_size (snd (decrease_step_size m)) \<le> 23 / 10"
  unfolding decrease_step_size_eq using decreased_bounds(2) py_round_upper by presburger

lemma increase_step_size_rounded:
  "step_rounded m \<or> step_size m < 2 \<Longrightarrow> step_rounded (snd (increase_step_size m))"
  by (auto simp: increase_step_size_def Let_def step_rounded_def py_round_idem)

lemma decrease_step_size_rounded:
  "step_rounded m \<or> 1 / 1000 < step_size m \<Longrightarrow> step_rounded (snd (decrease_step_size m))"
  by (auto simp: decrease_step_size_def Let_def step_rounded_def py_round_idem)

lemma step_size_bounds_run:
  assumes "set cs \<subseteq> {IncreaseStep, DecreaseStep}"
    and "1 / 1000 \<le> step_size m" and "step_size m \<le> 23 / 10"
  shows "1 / 1000 \<le> step_size (run cs m) \<and> step_size (run cs m) \<le> 23 / 10"
  using assms
proof (induction cs arbitrary: m)
  case Nil
  then show ?case by (simp add: run_Nil)
next
  case (Cons c cs)
  from Cons.prems(1) have c: "c = IncreaseStep \<or> c = DecreaseStep" and cs: "set cs \<subseteq> {IncreaseStep, DecreaseStep}"
    by auto
  from c have "1 / 1000 \<le> step_size (exec c m) \<and> step_size (exec c m) \<le> 23 / 10"
  proof
    assume "c = IncreaseStep"
    with Cons.prems(2,3) increase_step_size_lower[of m] increase_step_size_upper[of m]
    show ?thesis by simp
  next
    assume "c = DecreaseStep"
    with Cons.prems(2,3) decrease_step_size_lower[of m] decrease_step_size_upper[of m]
    show ?thesis by simp
  qed
  with Cons.IH[OF cs, of "exec c m"] show ?case by (simp add: run_Cons)
qed

lemma step_rounded_run:
  assumes "set cs \<subseteq> {IncreaseStep, DecreaseStep}" and "cs \<noteq> []"
    and "1 / 1000 \<le> step_size m" and "step_size m \<le> 2"
  shows "step_rounded (run cs m)"
proof -
  have first: "step_rounded (exec c m)" if "c = IncreaseStep \<or> c = DecreaseStep" for c
  proof -
    have "step_rounded m \<or> (1 / 1000 < step_size m \<and> step_size m < 2)"
    proof (cases "step_size m = 1 / 1000 \<or> step_size m = 2")
      case True
      then have "step_rounded m"
        unfolding step_rounded_def using py_round_minimum py_round_two by metis
      then show ?thesis ..
    next
      case False
      with assms(3,4) show ?thesis by simp
    qed
    with that increase_step_size_rounded[of m] decrease_step_size_rounded[of m]
    show ?thesis by fastforce
  qed
  have keep: "step_rounded (run cs' m')" if "set cs' \<subseteq> {IncreaseStep, DecreaseStep}" "step_rounded m'" for cs' m'
    using that
  proof (induction cs' arbitrary: m')
    case Nil then show ?case by (simp add: run_Nil)
  next
    case (Cons c cs')
    then have "step_rounded (exec c m')"
      by (auto intro: increase_step_size_rounded decrease_step_size_rounded)
    with Cons show ?case by (simp add: run_Cons)
  qed
  from assms(2) obtain c cs' where cs: "cs = c # cs'" by (cases cs) auto
  with assms(1) have "c = IncreaseStep \<or> c = DecreaseStep" "set cs' \<subseteq> {IncreaseStep, DecreaseStep}" by auto
  with first keep show ?thesis by (simp add: cs run_Cons)
qed

text \<open>
  C5. The claim is that from every starting step size in \<open>[0.001, 2.0]\<close> any sequence of
  \<^verbatim>\<open>increase_step_size\<close> and \<^verbatim>\<open>decrease_step_size\<close> calls keeps the step size in
  \<open>[0.001, 2.0]\<close> and rounded to three decimals. The lower limit and the rounding hold
  (\<open>step_size_bounds_run\<close>, \<open>step_rounded_run\<close>), the upper limit does not:
  \<^verbatim>\<open>increase_step_size\<close> scales whenever the step size is below 2.0 and never cuts the
  product back, where \<^verbatim>\<open>decrease_step_size\<close> does cut its product at 0.001. From the
  default step size 0.1, eighteen increases give 1.823 and the nineteenth gives 2.096.
\<close>

theorem increase_step_size_exceeds_two:
  "1 / 1000 \<le> step_size (init_microscope 30 0) \<and> step_size (init_microscope 30 0) \<le> 2
   \<and> step_size (run (replicate 18 IncreaseStep) (init_microscope 30 0)) = 1823 / 1000
   \<and> step_size (run (replicate 19 IncreaseStep) (init_microscope 30 0)) = 2096 / 1000
   \<and> 2 < step_size (run (replicate 19 IncreaseStep) (init_microscope 30 0))"
  by (simp add: run_def eval_nat_numeral increase_step_size_def init_microscope_def
      py_round_def round_half_even_def Let_def)

subsection \<open>Precision mode\<close>

lemma reachable_step_rounded: "reachable m \<Longrightarrow> step_rounded m"
proof (induction rule: reachable.induct)
  case (reach_init maxpos now)
  show ?case using py_round_of_int[of 100 3] by (simp add: step_rounded_def init_microscope_def)
next
  case (reach_left m factor t)
  then show ?case by (simp add: step_rounded_def move_left_def Let_def)
next
  case (reach_right m factor t)
  then show ?case by (simp add: step_rounded_def move_right_def Let_def)
next
  case (reach_increase m)
  then show ?case by (simp add: step_rounded_def increase_step_size_def Let_def py_round_idem)
next
  case (reach_decrease m)
  then show ?case by (simp add: step_rounded_def decrease_step_size_def Let_def py_round_idem)
next
  case (reach_toggle m)
  then show ?case by (simp add: step_rounded_def toggle_precision_mode_def Let_def py_round_idem)
next
  case (reach_measure m radii tri ts parent)
  then show ?case
    by (simp add: step_rounded_def take_measurement_def Let_def split: option.splits)
next
  case (reach_clear m)
  then show ?case by (simp add: step_rounded_def)
next
  case (reach_reset m)
  then show ?case by (simp add: step_rounded_def)
qed

lemma toggle_twice_step_size:
  "\<not> precision_mode m \<Longrightarrow>
     step_size (snd (toggle_precision_mode (snd (toggle_precision_mode m))))
       = py_round (step_size m) 3"
  by (simp add: toggle_precision_mode_def Let_def)

text \<open>
  C6. In every reachable state with precision mode off, toggling the precision mode twice
  restores the step size exactly, and leaves the velocity at 0, the movement smoothing at
  0.8 and the precision mode off. (The step size of a reachable state is a multiple of
  0.001, so the final \<^verbatim>\<open>round(step_size, 3)\<close> does not move it.)
\<close>

theorem toggle_twice_restores:
  assumes "reachable m" and "\<not> precision_mode m"
  shows "step_size (snd (toggle_precision_mode (snd (toggle_precision_mode m)))) = step_size m
    \<and> velocity (snd (toggle_precision_mode (snd (toggle_precision_mode m)))) = 0
    \<and> movement_smoothness (snd (toggle_precision_mode (snd (toggle_precision_mode m)))) = 8 / 10
    \<and> \<not> precision_mode (snd (toggle_precision_mode (snd (toggle_precision_mode m))))"
proof -
  from assms(1) have "py_round (step_size m) 3 = step_size m"
    using reachable_step_rounded by (simp add: step_rounded_def)
  with assms(2) show ?thesis
    by (simp add: toggle_precision_mode_def Let_def)
qed

theorem toggle_twice_restores_witness:
  "reachable (run [IncreaseStep, MoveRight 1 1, IncreaseStep] (init_microscope 30 0))
   \<and> \<not> precision_mode (run [IncreaseStep, MoveRight 1 1, IncreaseStep] (init_microscope 30 0))
   \<and> step_size (run [IncreaseStep, MoveRight 1 1, IncreaseStep] (init_microscope 30 0)) = 144 / 1000
   \<and> step_size (snd (toggle_precision_mode (run [IncreaseStep, MoveRight 1 1, IncreaseStep] (init_microscope 30 0)))) = 14 / 1000
   \<and> step_size (snd (toggle_precision_mode (snd (toggle_precision_mode
        (run [IncreaseStep, MoveRight 1 1, IncreaseStep] (init_microscope 30 0)))))) = 144 / 1000"
proof -
  let ?m = "run [IncreaseStep, MoveRight 1 1, IncreaseStep] (init_microscope 30 0)"
  have r: "reachable ?m"
    unfolding run_def fold_simps exec.simps
    by (intro reach_increase reach_right reach_init)
  have p: "\<not> precision_mode ?m"
    by (simp add: run_def increase_step_size_def move_right_def init_microscope_def Let_def)
  have s: "step_size ?m = 144 / 1000"
    by (simp add: run_def increase_step_size_def move_right_def init_microscope_def Let_def py_round_def round_half_even_def)
  have t: "step_size (snd (toggle_precision_mode ?m)) = 14 / 1000"
    using p by (simp add: toggle_precision_mode_def Let_def s py_round_def round_half_even_def)
  from toggle_twice_restores[OF r p] r p s t show ?thesis by simp
qed

subsection \<open>Ring geometry\<close>

lemma radicand_nonneg:
  assumes "physical s"
  shows "0 \<le> real m * wavelength s * radius_of_curvature s / refractive_index s"
proof -
  from assms have "0 \<le> real m * wavelength s * radius_of_curvature s"
    by (simp add: physical_def)
  moreover from assms have "0 < refractive_index s" by (simp add: physical_def)
  ultimately show ?thesis by (rule divide_nonneg_pos)
qed

lemma radicand_strict_mono:
  assumes "physical s" and "i < j"
  shows "real i * wavelength s * radius_of_curvature s / refractive_index s
       < real j * wavelength s * radius_of_curvature s / refractive_index s"
proof -
  from assms have "real i * wavelength s < real j * wavelength s"
    by (simp add: physical_def)
  with assms(1) have "real i * wavelength s * radius_of_curvature s
      < real j * wavelength s * radius_of_curvature s"
    by (simp add: physical_def)
  moreover from assms(1) have "0 < refractive_index s" by (simp add: physical_def)
  ultimately show ?thesis by (rule divide_strict_right_mono)
qed

lemma ring_radius_physical:
  assumes "physical s"
  shows "ring_radius s m = Inr (radius_mm s m)"
proof -
  from assms have "refractive_index s \<noteq> 0" by (simp add: physical_def)
  moreover have "\<not> real m * wavelength s * radius_of_curvature s / refractive_index s < 0"
    using radicand_nonneg[OF assms, of m] by simp
  ultimately show ?thesis
    by (simp add: ring_radius_def radius_mm_def py_div_def py_sqrt_def)
qed

lemma radius_mm_nonneg: "physical s \<Longrightarrow> 0 \<le> radius_mm s m"
  using radicand_nonneg[of s m] by (simp add: radius_mm_def)

lemma radius_mm_ring_radii_update [simp]: "radius_mm (s\<lparr>ring_radii := r\<rparr>) = radius_mm s"
  by (simp add: radius_mm_def fun_eq_iff)

lemma physical_ring_radii_update [simp]: "physical (s\<lparr>ring_radii := r\<rparr>) = physical s"
  by (simp add: physical_def)

lemma radii_loop_physical:
  "physical s \<Longrightarrow>
     radii_loop ms s = (None, s\<lparr> ring_radii := ring_radii s @ map (radius_mm s) ms \<rparr>)"
proof (induction ms arbitrary: s)
  case Nil
  show ?case by simp
next
  case (Cons m ms)
  from Cons.prems have "physical (s\<lparr>ring_radii := ring_radii s @ [radius_mm s m]\<rparr>)" by simp
  from Cons.IH[OF this] Cons.prems show ?case
    by (simp add: ring_radius_physical)
qed

lemma calculate_ring_radii_physical:
  "physical s \<Longrightarrow>
     calculate_ring_radii s = (None, s\<lparr> ring_radii := map (radius_mm s) [0 ..< MAX_RINGS + 1] \<rparr>)"
  using radii_loop_physical[of "s\<lparr>ring_radii := []\<rparr>" "[0 ..< MAX_RINGS + 1]"]
  by (simp add: calculate_ring_radii_def)

lemma radius_mm_strict_mono:
  assumes "physical s" and "i < j"
  shows "radius_mm s i < radius_mm s j"
proof (cases "i = 0")
  case True
  from assms have "real 0 * wavelength s * radius_of_curvature s / refractive_index s
       < real j * wavelength s * radius_of_curvature s / refractive_index s"
    unfolding True by (rule radicand_strict_mono)
  then have "0 < sqrt (real j * wavelength s * radius_of_curvature s / refractive_index s)"
    by simp
  with True assms(2) show ?thesis by (simp add: radius_mm_def)
next
  case False
  from assms have "sqrt (real i * wavelength s * radius_of_curvature s / refractive_index s)
       < sqrt (real j * wavelength s * radius_of_curvature s / refractive_index s)"
    using radicand_strict_mono real_sqrt_less_iff by blast
  with False assms(2) show ?thesis by (simp add: radius_mm_def)
qed

lemma physical_default: "physical default_session"
  by (simp add: physical_def default_session_def)

lemma default_session_fields:
  "wavelength default_session = 5893 / 10" "refractive_index default_session = 1"
  "radius_of_curvature default_session = 1000000000"
  by (simp_all add: default_session_def)

lemma calculate_ring_radii_frame:
  assumes "physical s"
  shows "wavelength (snd (calculate_ring_radii s)) = wavelength s"
    and "refractive_index (snd (calculate_ring_radii s)) = refractive_index s"
    and "radius_of_curvature (snd (calculate_ring_radii s)) = radius_of_curvature s"
    and "left_measurements (snd (calculate_ring_radii s)) = left_measurements s"
    and "right_measurements (snd (calculate_ring_radii s)) = right_measurements s"
    and "length (ring_radii (snd (calculate_ring_radii s))) = MAX_RINGS + 1"
  by (simp_all add: calculate_ring_radii_physical[OF assms])

lemma ring_radii_nth:
  assumes "physical s" and "m \<le> MAX_RINGS"
  shows "ring_radii (snd (calculate_ring_radii s)) ! m = radius_mm s m"
proof -
  from assms(2) have "m < length [0 ..< MAX_RINGS + 1]" by simp
  then have "map (radius_mm s) [0 ..< MAX_RINGS + 1] ! m = radius_mm s ([0 ..< MAX_RINGS + 1] ! m)"
    by (rule nth_map)
  also from assms(2) have "[0 ..< MAX_RINGS + 1] ! m = m"
    using nth_upt[of 0 m "MAX_RINGS + 1"] by simp
  finally show ?thesis by (simp add: calculate_ring_radii_physical[OF assms(1)])
qed

lemma radius_mm_squared:
  assumes "physical s" and "0 < m"
  shows "(radius_mm s m)\<^sup>2
       = real m * wavelength s * radius_of_curvature s / refractive_index s / 10 ^ 12"
proof -
  have "(sqrt (real m * wavelength s * radius_of_curvature s / refractive_index s))\<^sup>2
      = real m * wavelength s * radius_of_curvature s / refractive_index s"
    using radicand_nonneg[OF assms(1), of m] by (rule real_sqrt_pow2)
  with assms(2) show ?thesis by (simp add: radius_mm_def power_divide)
qed

lemma calculated_wavelength_tenfold:
  assumes "physical s" and "1 \<le> m" and "m \<le> MAX_RINGS"
  shows "calculated_wavelength (snd (calculate_ring_radii s)) m = Inr (10 * wavelength s)"
proof -
  let ?s = "snd (calculate_ring_radii s)"
  note f = calculate_ring_radii_frame[OF assms(1)]
  from assms have pos: "0 < real m" "0 < radius_of_curvature s" "0 < refractive_index s"
    by (simp_all add: physical_def)
  then have nz: "real m * radius_of_curvature s / 10 ^ 7 \<noteq> 0" by simp
  from assms(2) have sq: "(ring_radii ?s ! m)\<^sup>2
       = real m * wavelength s * radius_of_curvature s / refractive_index s / 10 ^ 12"
    using ring_radii_nth[OF assms(1,3)] radius_mm_squared[OF assms(1), of m] by simp
  have "(ring_radii ?s ! m)\<^sup>2 * refractive_index s / (real m * radius_of_curvature s / 10 ^ 7) * 1000000
      = 10 * wavelength s"
    unfolding sq using pos by (simp add: field_simps)
  with nz assms(3) show ?thesis
    by (simp add: calculated_wavelength_def f py_div_def Let_def)
qed

text \<open>
  C4. For a positive wavelength and radius of curvature (and the positive refractive index
  the session always has), \<^verbatim>\<open>calculate_ring_radii\<close> raises nothing and leaves a table of
  \<open>MAX_RINGS + 1\<close> entries: entry 0 is 0, entry \<open>m \<ge> 1\<close> is
  \<open>sqrt (m \<cdot> wavelength \<cdot> radius_of_curvature / refractive_index) / 10\<^sup>6\<close>, every entry is
  non-negative and the table is strictly increasing.
\<close>

theorem calculate_ring_radii_table:
  assumes "0 < wavelength s" and "0 < radius_of_curvature s" and "0 < refractive_index s"
  shows "fst (calculate_ring_radii s) = None
    \<and> length (ring_radii (snd (calculate_ring_radii s))) = MAX_RINGS + 1
    \<and> ring_radii (snd (calculate_ring_radii s)) ! 0 = 0
    \<and> (\<forall>m. 1 \<le> m \<and> m \<le> MAX_RINGS \<longrightarrow>
          ring_radii (snd (calculate_ring_radii s)) ! m
            = sqrt (real m * wavelength s * radius_of_curvature s / refractive_index s) / 1000000)
    \<and> (\<forall>m. m \<le> MAX_RINGS \<longrightarrow> 0 \<le> ring_radii (snd (calculate_ring_radii s)) ! m)
    \<and> (\<forall>i j. i < j \<and> j \<le> MAX_RINGS \<longrightarrow>
          ring_radii (snd (calculate_ring_radii s)) ! i
            < ring_radii (snd (calculate_ring_radii s)) ! j)"
proof -
  from assms have ph: "physical s" by (simp add: physical_def)
  have nth: "ring_radii (snd (calculate_ring_radii s)) ! m = radius_mm s m" if "m \<le> MAX_RINGS" for m
  proof -
    from that have "m < length [0 ..< MAX_RINGS + 1]" by simp
    then have "map (radius_mm s) [0 ..< MAX_RINGS + 1] ! m = radius_mm s ([0 ..< MAX_RINGS + 1] ! m)"
      by (rule nth_map)
    also from that have "[0 ..< MAX_RINGS + 1] ! m = m"
      using nth_upt[of 0 m "MAX_RINGS + 1"] by simp
    finally show ?thesis by (simp add: calculate_ring_radii_physical[OF ph])
  qed
  have c1: "fst (calculate_ring_radii s) = None"
    by (simp add: calculate_ring_radii_physical[OF ph])
  have c2: "length (ring_radii (snd (calculate_ring_radii s))) = MAX_RINGS + 1"
    by (simp add: calculate_ring_radii_physical[OF ph])
  have c3: "ring_radii (snd (calculate_ring_radii s)) ! 0 = 0"
    using nth[of 0] by (simp add: radius_mm_def)
  have c4: "\<forall>m. 1 \<le> m \<and> m \<le> MAX_RINGS \<longrightarrow>
          ring_radii (snd (calculate_ring_radii s)) ! m
            = sqrt (real m * wavelength s * radius_of_curvature s / refractive_index s) / 1000000"
    using nth by (simp add: radius_mm_def)
  have c5: "\<forall>m. m \<le> MAX_RINGS \<longrightarrow> 0 \<le> ring_radii (snd (calculate_ring_radii s)) ! m"
    using nth radius_mm_nonneg[OF ph] by simp
  have c6: "\<forall>i j. i < j \<and> j \<le> MAX_RINGS \<longrightarrow>
          ring_radii (snd (calculate_ring_radii s)) ! i
            < ring_radii (snd (calculate_ring_radii s)) ! j"
    using nth radius_mm_strict_mono[OF ph] by simp
  from c1 c2 c3 c4 c5 c6 show ?thesis by blast
qed


theorem calculate_ring_radii_table_witness:
  "0 < wavelength default_session \<and> 0 < radius_of_curvature default_session
   \<and> 0 < refractive_index default_session
   \<and> fst (calculate_ring_radii default_session) = None
   \<and> length (ring_radii (snd (calculate_ring_radii default_session))) = 16
   \<and> ring_radii (snd (calculate_ring_radii default_session)) ! 0 = 0
   \<and> ring_radii (snd (calculate_ring_radii default_session)) ! 1
       = sqrt 589300000000 / 1000000
   \<and> ring_radii (snd (calculate_ring_radii default_session)) ! 1
       < ring_radii (snd (calculate_ring_radii default_session)) ! 2"
proof -
  have h: "0 < wavelength default_session" "0 < radius_of_curvature default_session"
    "0 < refractive_index default_session"
    by (simp_all add: default_session_fields)
  note t = calculate_ring_radii_table[OF h]
  from t have "ring_radii (snd (calculate_ring_radii default_session)) ! 1
      = sqrt (real 1 * wavelength default_session * radius_of_curvature default_session
          / refractive_index default_session) / 1000000"
    by (simp add: MAX_RINGS_def)
  then have one: "ring_radii (snd (calculate_ring_radii default_session)) ! 1
      = sqrt 589300000000 / 1000000"
    by (simp add: default_session_fields)
  from t have lt: "ring_radii (snd (calculate_ring_radii default_session)) ! 1
      < ring_radii (snd (calculate_ring_radii default_session)) ! 2"
    by (simp add: MAX_RINGS_def)
  from t h one lt show ?thesis by (simp add: MAX_RINGS_def)
qed

text \<open>
  C3. The claim is that the wavelength recomputed from the tabulated radius of a ring is
  the wavelength of the session. The code returns ten times the wavelength
  (\<open>calculated_wavelength_tenfold\<close>): the radius is in mm and the radius of curvature in
  cm, so the quotient is in units of 0.1 mm, which the final factor \<open>10\<^sup>6\<close> does not turn
  into nm. For the default session and ring 1 the result is 5893 nm for sodium light of
  589.3 nm.
\<close>

theorem calculated_wavelength_off_by_ten:
  "wavelength (snd (calculate_ring_radii default_session)) = 5893 / 10
   \<and> calculated_wavelength (snd (calculate_ring_radii default_session)) 1 = Inr 5893"
  using calculated_wavelength_tenfold[OF physical_default, of 1]
  by (simp add: calculate_ring_radii_frame[OF physical_default] MAX_RINGS_def
      default_session_fields)

subsection \<open>Radius of curvature from the measurements\<close>

lemma synthetic_valid_pairs:
  "valid_pairs synthetic_session = [(5, 4 * (5 * (5893 / 10000))), (10, 4 * (10 * (5893 / 10000)))]"
proof -
  let ?s = "snd (calculate_ring_radii default_session)"
  have r5: "(ring_radii ?s ! 5)\<^sup>2 = 5 * (5893 / 10000)"
    using ring_radii_nth[OF physical_default, of 5] radius_mm_squared[OF physical_default, of 5]
    by (simp add: MAX_RINGS_def default_session_fields)
  have r10: "(ring_radii ?s ! 10)\<^sup>2 = 10 * (5893 / 10000)"
    using ring_radii_nth[OF physical_default, of 10] radius_mm_squared[OF physical_default, of 10]
    by (simp add: MAX_RINGS_def default_session_fields)
  have d: "\<bar>x - - x\<bar>\<^sup>2 = 4 * x\<^sup>2" for x :: real
    by (simp add: power2_eq_square)
  have "valid_pairs synthetic_session
      = [(5, \<bar>ring_radii ?s ! 5 - - ring_radii ?s ! 5\<bar>\<^sup>2),
         (10, \<bar>ring_radii ?s ! 10 - - ring_radii ?s ! 10\<bar>\<^sup>2)]"
    by (simp add: valid_pairs_def synthetic_session_def Let_def List.map_filter_def)
  then show ?thesis
    by (simp only: d r5 r10)
qed

text \<open>
  C2. The claim is that the regression recovers the radius of curvature, in cm, from
  noise-free positions of two rings. For the default session (589.3 nm, 100 cm) and the
  rings 5 and 10 the code reports 40000 cm: the slope of the squared diameters is
  \<open>4 \<cdot> wavelength \<cdot> R\<close> in square millimetres, and it is divided by the wavelength in cm only.
\<close>

theorem regression_radius_off_by_400:
  "radius_of_curvature synthetic_session / 10 ^ 7 = 100
   \<and> wavelength synthetic_session = 5893 / 10
   \<and> calculate_radius_from_measurements synthetic_session
       = (Inr (Calculated 40000), synthetic_session)"
proof -
  have f: "radius_of_curvature synthetic_session = 100 * 10 ^ 7"
      "wavelength synthetic_session = 5893 / 10"
    by (simp_all add: synthetic_session_def Let_def
        calculate_ring_radii_frame[OF physical_default] default_session_fields)
  show ?thesis
    by (simp add: f calculate_radius_from_measurements_def synthetic_valid_pairs Let_def py_div_def)
qed

lemma valid_pairs_length:
  assumes "distinct (map fst (left_measurements s))"
  shows "length (valid_pairs s)
       = card (fst ` set (left_measurements s) \<inter> fst ` set (right_measurements s))"
proof -
  let ?f = "\<lambda>ring. case (map_of (left_measurements s) ring, map_of (right_measurements s) ring) of
                 (Some l, Some r) \<Rightarrow> Some (ring, \<bar>r - l\<bar> ^ 2)
               | _ \<Rightarrow> None"
  let ?keys = "sort (map fst (left_measurements s))"
  have "length (valid_pairs s) = length (filter (\<lambda>ring. ?f ring \<noteq> None) ?keys)"
    by (simp add: valid_pairs_def List.map_filter_def)
  also have "\<dots> = card ({ring. ?f ring \<noteq> None} \<inter> set ?keys)"
    using assms by (intro distinct_length_filter) simp
  also have "{ring. ?f ring \<noteq> None} \<inter> set ?keys
      = fst ` set (left_measurements s) \<inter> fst ` set (right_measurements s)"
    by (auto simp: map_of_eq_None_iff split: option.splits)
  finally show ?thesis .
qed

lemma calculate_radius_keeps_state: "snd (calculate_radius_from_measurements s) = s"
  by (simp add: calculate_radius_from_measurements_def Let_def split: sum.splits)

text \<open>
  C9. When fewer than two ring numbers are keys of both \<^verbatim>\<open>left_measurements\<close> and
  \<^verbatim>\<open>right_measurements\<close>, \<^verbatim>\<open>calculate_radius_from_measurements\<close> raises nothing, reports
  that the measurements are insufficient, and leaves the session as it was. (The keys of
  a dictionary are distinct.)
\<close>

theorem insufficient_measurements_reported:
  assumes "distinct (map fst (left_measurements s))"
    and "card (fst ` set (left_measurements s) \<inter> fst ` set (right_measurements s)) < 2"
  shows "calculate_radius_from_measurements s = (Inr Insufficient, s)"
  using assms by (simp add: calculate_radius_from_measurements_def valid_pairs_length Let_def)

theorem insufficient_measurements_reported_witness:
  "distinct (map fst (left_measurements one_ring_session))
   \<and> card (fst ` set (left_measurements one_ring_session)
           \<inter> fst ` set (right_measurements one_ring_session)) < 2
   \<and> calculate_radius_from_measurements one_ring_session = (Inr Insufficient, one_ring_session)"
proof -
  have d: "distinct (map fst (left_measurements one_ring_session))"
    by (simp add: one_ring_session_def)
  have "fst ` set (left_measurements one_ring_session)
           \<inter> fst ` set (right_measurements one_ring_session) = {5}"
    by (auto simp: one_ring_session_def)
  then have c: "card (fst ` set (left_measurements one_ring_session)
           \<inter> fst ` set (right_measurements one_ring_session)) < 2"
    by simp
  from insufficient_measurements_reported[OF d c] d c show ?thesis by simp
qed

subsection \<open>Taking a measurement\<close>

lemma take_measurement_microscope:
  "microscope_after radii tri ts m parent
     = m\<lparr> current_reading := Some (measurement_reading radii tri ts m),
           measurements := AList.update (py_round (position m) 9)
              (measurement_reading radii tri ts m) (measurements m) \<rparr>"
  by (simp add: take_measurement_def Let_def split: option.splits)

lemma measurement_reading_closest_ring:
  "rd_closest_ring (measurement_reading radii tri ts m) = closest_ring (scan_rings (position m) radii)"
  by (simp add: measurement_reading_def Let_def)

lemma take_measurement_keys:
  "map fst (measurements (microscope_after radii tri ts m parent))
     = (if py_round (position m) 9 \<in> set (map fst (measurements m))
        then map fst (measurements m)
        else map fst (measurements m) @ [py_round (position m) 9])"
  by (simp add: take_measurement_microscope AList.update_keys)

lemma take_measurement_stored:
  "map_of (measurements (microscope_after radii tri ts m parent)) (py_round (position m) 9)
     = current_reading (microscope_after radii tri ts m parent)"
  by (simp add: take_measurement_microscope AList.update_conv')

text \<open>
  C10. \<^verbatim>\<open>take_measurement\<close> changes \<^verbatim>\<open>measurements\<close> and \<^verbatim>\<open>current_reading\<close> of the
  microscope and nothing else of it: position, velocity, step size, precision mode,
  movement smoothing, last update time, movement history and sub-pixel positions stay as
  they were. Of the parent it changes at most \<^verbatim>\<open>left_measurements\<close> and
  \<^verbatim>\<open>right_measurements\<close>, and it changes the parent only when a parent is attached and the
  closest ring is a ring other than ring 0.
\<close>

theorem take_measurement_frame:
  "microscope_after radii tri ts m parent
     = m\<lparr> current_reading := current_reading (microscope_after radii tri ts m parent),
           measurements := measurements (microscope_after radii tri ts m parent) \<rparr>
   \<and> position (microscope_after radii tri ts m parent) = position m
   \<and> velocity (microscope_after radii tri ts m parent) = velocity m
   \<and> step_size (microscope_after radii tri ts m parent) = step_size m
   \<and> precision_mode (microscope_after radii tri ts m parent) = precision_mode m
   \<and> movement_smoothness (microscope_after radii tri ts m parent) = movement_smoothness m
   \<and> last_update_time (microscope_after radii tri ts m parent) = last_update_time m
   \<and> movement_history (microscope_after radii tri ts m parent) = movement_history m
   \<and> sub_pixel_positions (microscope_after radii tri ts m parent) = sub_pixel_positions m
   \<and> map_option without_sides (parent_after radii tri ts m parent)
       = map_option without_sides parent
   \<and> (parent_after radii tri ts m parent = parent
      \<or> (\<exists>p c. parent = Some p \<and> closest_ring (scan_rings (position m) radii) = Some c
            \<and> 0 < c))"
proof -
  note m' = take_measurement_microscope[of radii tri ts m parent]
  have p1: "map_option without_sides (parent_after radii tri ts m parent)
       = map_option without_sides parent"
    by (simp add: take_measurement_def Let_def without_sides_def split: option.splits)
  have p2: "parent_after radii tri ts m parent = parent
      \<or> (\<exists>p c. parent = Some p \<and> closest_ring (scan_rings (position m) radii) = Some c
            \<and> 0 < c)"
    by (simp add: take_measurement_def Let_def measurement_reading_closest_ring
        split: option.splits)
  show ?thesis
    unfolding m' using p1 p2 by simp
qed

theorem take_measurement_frame_witness:
  "position (microscope_after [0, 1, 2] (1 / 2) ''12:00:00''
       ((init_microscope 30 0)\<lparr> position := 1 \<rparr>) (Some default_session)) = 1
   \<and> map fst (measurements (microscope_after [0, 1, 2] (1 / 2) ''12:00:00''
       ((init_microscope 30 0)\<lparr> position := 1 \<rparr>) (Some default_session))) = [1]
   \<and> parent_after [0, 1, 2] (1 / 2) ''12:00:00''
       ((init_microscope 30 0)\<lparr> position := 1 \<rparr>) (Some default_session)
       = Some (default_session\<lparr> right_measurements := [(1, 1)] \<rparr>)
   \<and> map_option without_sides (parent_after [0, 1, 2] (1 / 2) ''12:00:00''
       ((init_microscope 30 0)\<lparr> position := 1 \<rparr>) (Some default_session))
       = Some (without_sides default_session)"
proof -
  have e: "parent_after [0, 1, 2] (1 / 2) ''12:00:00''
       ((init_microscope 30 0)\<lparr> position := 1 \<rparr>) (Some default_session)
       = Some (default_session\<lparr> right_measurements := [(1, 1)] \<rparr>)"
    by (simp add: take_measurement_def Let_def measurement_reading_closest_ring scan_rings_def
        scan_step_def init_microscope_def default_session_def)
  have k: "map fst (measurements (microscope_after [0, 1, 2] (1 / 2) ''12:00:00''
       ((init_microscope 30 0)\<lparr> position := 1 \<rparr>) (Some default_session))) = [1]"
    by (simp add: take_measurement_microscope init_microscope_def py_round_def
        round_half_even_def)
  from take_measurement_frame[of "[0, 1, 2]" "1 / 2" "''12:00:00''"
      "(init_microscope 30 0)\<lparr> position := 1 \<rparr>" "Some default_session"] e k
  show ?thesis by simp
qed

text \<open>
  C8. The claim is that two measurements at positions 1e-10 mm apart are always stored
  under one key. The key is the position rounded to nine decimals, and a rounding
  boundary can lie between the two positions: measurements at 4.9e-10 and at 5.9e-10 are
  stored under the two keys 0 and 1e-9.
\<close>

theorem measurement_keys_differ_counterexample:
  "\<bar>59 / 10 ^ 11 - 49 / 10 ^ 11\<bar> = (1 / 10 ^ 10 :: real)
   \<and> map fst (measurements
        (microscope_after [0, 1, 2] 0 ''12:00:01''
           ((microscope_after [0, 1, 2] 0 ''12:00:00''
               ((init_microscope 30 0)\<lparr> position := 49 / 10 ^ 11 \<rparr>) None)
              \<lparr> position := 59 / 10 ^ 11 \<rparr>) None))
       = [0, 1 / 10 ^ 9]"
  by (simp add: take_measurement_keys take_measurement_microscope init_microscope_def py_round_def round_half_even_def)

text \<open>
  C8, as amended. Two measurements at positions with the same rounding to nine decimals
  are stored under one key: the second call adds no key, and the record found under the
  common key is the reading of the second call.
\<close>

theorem measurements_collide_on_equal_keys:
  assumes "py_round (position m2) 9 = py_round (position m1) 9"
    and "measurements m2 = measurements (microscope_after radii1 tri1 ts1 m1 parent1)"
  shows "map fst (measurements (microscope_after radii2 tri2 ts2 m2 parent2))
       = map fst (measurements (microscope_after radii1 tri1 ts1 m1 parent1))
    \<and> map_of (measurements (microscope_after radii2 tri2 ts2 m2 parent2))
         (py_round (position m1) 9)
       = Some (measurement_reading radii2 tri2 ts2 m2)"
proof -
  have "py_round (position m1) 9
      \<in> set (map fst (measurements (microscope_after radii1 tri1 ts1 m1 parent1)))"
    by (simp add: take_measurement_keys)
  with assms have "py_round (position m2) 9 \<in> set (map fst (measurements m2))"
    by simp
  then have "map fst (measurements (microscope_after radii2 tri2 ts2 m2 parent2))
      = map fst (measurements m2)"
    by (simp add: take_measurement_keys)
  moreover have "map_of (measurements (microscope_after radii2 tri2 ts2 m2 parent2))
         (py_round (position m2) 9) = Some (measurement_reading radii2 tri2 ts2 m2)"
    by (simp add: take_measurement_microscope AList.update_conv')
  ultimately show ?thesis using assms by simp
qed

theorem measurements_collide_on_equal_keys_witness:
  "\<bar>1000000001 / 10000000000 - 1 / 10\<bar> = (1 / 10 ^ 10 :: real)
   \<and> py_round (1000000001 / 10000000000) 9 = py_round (1 / 10) 9
   \<and> map fst (measurements
        (microscope_after [0, 1, 2] 0 ''12:00:01''
           ((microscope_after [0, 1, 2] 0 ''12:00:00''
               ((init_microscope 30 0)\<lparr> position := 1 / 10 \<rparr>) None)
              \<lparr> position := 1000000001 / 10000000000 \<rparr>) None))
       = [1 / 10]
   \<and> map_option rd_position (map_of (measurements
        (microscope_after [0, 1, 2] 0 ''12:00:01''
           ((microscope_after [0, 1, 2] 0 ''12:00:00''
               ((init_microscope 30 0)\<lparr> position := 1 / 10 \<rparr>) None)
              \<lparr> position := 1000000001 / 10000000000 \<rparr>) None)) (1 / 10))
       = Some (1000000001 / 10000000000)"
proof -
  let ?m1 = "(init_microscope 30 0)\<lparr> position := 1 / 10 \<rparr>"
  let ?m2 = "(microscope_after [0, 1, 2] 0 ''12:00:00'' ?m1 None)
              \<lparr> position := 1000000001 / 10000000000 \<rparr>"
  have r1: "py_round (1 / 10) 9 = 1 / 10"
    by (simp add: py_round_def round_half_even_def)
  have r2: "py_round (1000000001 / 10000000000) 9 = 1 / 10"
    by (simp add: py_round_def round_half_even_def)
  have h1: "py_round (position ?m2) 9 = py_round (position ?m1) 9"
    by (simp add: r1 r2)
  have h2: "measurements ?m2 = measurements (microscope_after [0, 1, 2] 0 ''12:00:00'' ?m1 None)"
    by simp
  have k: "map fst (measurements (microscope_after [0, 1, 2] 0 ''12:00:00'' ?m1 None)) = [1 / 10]"
    by (simp add: take_measurement_keys init_microscope_def r1)
  have p: "rd_position (measurement_reading [0, 1, 2] 0 ''12:00:01'' ?m2) = 1000000001 / 10000000000"
    by (simp add: measurement_reading_def Let_def)
  from measurements_collide_on_equal_keys[OF h1 h2, of "[0, 1, 2]" 0 "''12:00:01''" None]
  show ?thesis
    by (simp add: r1 r2 k p)
qed

subsection \<open>Choosing the pair of positions of a ring\<close>

lemma label_of_ring_left:
  "pos \<in> set (ring_left rs ring) \<Longrightarrow> label_of rs pos \<noteq> None"
  by (auto simp: ring_left_def label_of_def find_None_iff)

lemma label_of_ring_right:
  "pos \<in> set (ring_right rs ring) \<Longrightarrow> label_of rs pos \<noteq> None"
  by (auto simp: ring_right_def label_of_def find_None_iff)

lemma in_tier_Cons:
  "in_tier rs t (pos # ps) = (if label_of rs pos = Some t then pos # in_tier rs t ps else in_tier rs t ps)"
  by (simp add: in_tier_def)

lemma group_by_precision_map_of:
  assumes "\<forall>pos \<in> set ps. label_of rs pos \<noteq> None"
  shows "\<exists>acc'. group_by_precision rs ps acc = Inr acc'
     \<and> (\<forall>t. map_of acc' t = (if in_tier rs t ps = [] then map_of acc t
                               else Some (entries acc t @ in_tier rs t ps)))"
  using assms
proof (induction ps arbitrary: acc)
  case Nil
  show ?case by (simp add: in_tier_def)
next
  case (Cons pos ps)
  from Cons.prems obtain r where r: "find (\<lambda>r. rd_position r = pos) rs = Some r"
    by (auto simp: label_of_def)
  then have lab: "label_of rs pos = Some (rd_precision r)"
    by (simp add: label_of_def)
  let ?t0 = "rd_precision r"
  let ?acc1 = "AList.update ?t0 (entries acc ?t0 @ [pos]) acc"
  from Cons.prems have "\<forall>pos \<in> set ps. label_of rs pos \<noteq> None" by simp
  from Cons.IH[OF this, of ?acc1] obtain acc' where
    g: "group_by_precision rs ps ?acc1 = Inr acc'" and
    m: "\<And>t. map_of acc' t = (if in_tier rs t ps = [] then map_of ?acc1 t
                               else Some (entries ?acc1 t @ in_tier rs t ps))"
    by blast
  have step: "group_by_precision rs (pos # ps) acc = Inr acc'"
    using r g by (simp add: entries_def)
  have "map_of acc' t = (if in_tier rs t (pos # ps) = [] then map_of acc t
                               else Some (entries acc t @ in_tier rs t (pos # ps)))" for t
  proof (cases "t = ?t0")
    case True
    then show ?thesis
      using m[of t] lab by (simp add: in_tier_Cons AList.update_conv' entries_def)
  next
    case False
    then show ?thesis
      using m[of t] lab by (auto simp: in_tier_Cons AList.update_conv' entries_def)
  qed
  with step show ?case by blast
qed

lemma group_by_precision_empty:
  assumes "\<forall>pos \<in> set ps. label_of rs pos \<noteq> None"
  obtains acc' where "group_by_precision rs ps [] = Inr acc'"
    and "\<And>t. map_of acc' t = (if in_tier rs t ps = [] then None else Some (in_tier rs t ps))"
proof -
  from group_by_precision_map_of[OF assms, of "[]"] obtain acc' where
    "group_by_precision rs ps [] = Inr acc'"
    "\<forall>t. map_of acc' t = (if in_tier rs t ps = [] then map_of [] t
                               else Some (entries [] t @ in_tier rs t ps))"
    by blast
  then show ?thesis using that by (simp add: entries_def)
qed

lemma py_max_Max: "xs \<noteq> [] \<Longrightarrow> py_max xs = Inr (Max (set xs))"
proof (cases xs)
  case Nil
  assume "xs \<noteq> []"
  with Nil show ?thesis by simp
next
  case (Cons x ys)
  have "Max (set (x # ys)) = fold max ys x" by (rule Max.set_eq_fold)
  with Cons show ?thesis by simp
qed

lemma py_min_Min: "xs \<noteq> [] \<Longrightarrow> py_min xs = Inr (Min (set xs))"
proof (cases xs)
  case Nil
  assume "xs \<noteq> []"
  with Nil show ?thesis by simp
next
  case (Cons x ys)
  have "Min (set (x # ys)) = fold min ys x" by (rule Min.set_eq_fold)
  with Cons show ?thesis by simp
qed

lemma pick_nonempty:
  "ls \<noteq> [] \<Longrightarrow> rs \<noteq> [] \<Longrightarrow> pick ls rs label = Inr (Some (Max (set ls), Min (set rs), label))"
  by (simp add: pick_def py_max_Max py_min_Min)

lemma three_measurements_sorted:
  "sorted_readings three_measurements =
     [\<lparr>rd_position = - (103 / 50), rd_closest_ring = Some 2,
        rd_second_closest_ring = Some 3, rd_distance_from_ring = Finite (3 / 50),
        rd_reading = - (103 / 50), rd_precision = ''Good'', rd_velocity = 0,
        rd_noise_estimate = 1 / 500, rd_timestamp = ''12:00:00'',
        rd_alignment_quality = 99\<rparr>,
      \<lparr>rd_position = - (37 / 20), rd_closest_ring = Some 2,
        rd_second_closest_ring = Some 1, rd_distance_from_ring = Finite (3 / 20),
        rd_reading = - (37 / 20), rd_precision = ''Standard'', rd_velocity = 0,
        rd_noise_estimate = 1 / 100, rd_timestamp = ''12:00:01'',
        rd_alignment_quality = 99\<rparr>,
      \<lparr>rd_position = 103 / 50, rd_closest_ring = Some 2,
        rd_second_closest_ring = Some 3, rd_distance_from_ring = Finite (3 / 50),
        rd_reading = 103 / 50, rd_precision = ''Good'', rd_velocity = 0,
        rd_noise_estimate = 1 / 500, rd_timestamp = ''12:00:02'',
        rd_alignment_quality = 99\<rparr>]"
  by (simp add: three_measurements_def sorted_readings_def take_measurement_microscope
      measurement_reading_def scan_rings_def scan_step_def measurement_velocity_def
      measurement_quality_def init_microscope_def py_round_def round_half_even_def
      List.map_filter_def Let_def)

lemma three_left: "ring_left (sorted_readings three_measurements) 2 = [- (103 / 50), - (37 / 20)]"
  by (simp add: ring_left_def three_measurements_sorted)

lemma three_right: "ring_right (sorted_readings three_measurements) 2 = [103 / 50]"
  by (simp add: ring_right_def three_measurements_sorted)

lemma three_labels:
  "label_of (sorted_readings three_measurements) (- (103 / 50)) = Some ''Good''"
  "label_of (sorted_readings three_measurements) (- (37 / 20)) = Some ''Standard''"
  "label_of (sorted_readings three_measurements) (103 / 50) = Some ''Good''"
  by (simp_all add: label_of_def three_measurements_sorted)

text \<open>
  C7. The claim is that the pair of a ring comes from the highest tier present on both
  sides in the order Ultra-High, Very High, High, Good, Standard. The code looks for the
  first three tiers only. With \<open>Good\<close> measurements at -2.06 and 2.06 and a \<open>Standard\<close>
  measurement at -1.85 the claim gives the pair (-2.06, 2.06) of the tier \<open>Good\<close>; the code
  gives (-1.85, 2.06) under the label \<open>Standard\<close>.
\<close>

theorem best_pair_ignores_good_tier_counterexample:
  "best_pair (sorted_readings three_measurements) 2 = Inr (Some (- (37 / 20), 103 / 50, ''Standard''))
   \<and> spec_best_pair (sorted_readings three_measurements) 2
       = Some (- (103 / 50), 103 / 50, ''Good'')"
proof -
  let ?rs = "sorted_readings three_measurements"
  obtain lm where lm: "group_by_precision ?rs (ring_left ?rs 2) [] = Inr lm"
    and lmap: "\<And>t. map_of lm t = (if in_tier ?rs t (ring_left ?rs 2) = [] then None
                                  else Some (in_tier ?rs t (ring_left ?rs 2)))"
    using group_by_precision_empty[of "ring_left ?rs 2" ?rs] label_of_ring_left by blast
  obtain rm where rm: "group_by_precision ?rs (ring_right ?rs 2) [] = Inr rm"
    and rmap: "\<And>t. map_of rm t = (if in_tier ?rs t (ring_right ?rs 2) = [] then None
                                  else Some (in_tier ?rs t (ring_right ?rs 2)))"
    using group_by_precision_empty[of "ring_right ?rs 2" ?rs] label_of_ring_right by blast
  have b: "best_pair ?rs 2 = Inr (Some (- (37 / 20), 103 / 50, ''Standard''))"
    by (simp add: best_pair_def three_left three_right lm[unfolded three_left]
        rm[unfolded three_right] lmap[unfolded three_left] rmap[unfolded three_right]
        in_tier_def three_labels pick_def del: group_by_precision.simps)
  have c: "spec_best_pair (sorted_readings three_measurements) 2
       = Some (- (103 / 50), 103 / 50, ''Good'')"
    by (simp add: spec_best_pair_def tier_choice_def in_tier_def three_left three_right
        three_labels)
  from b c show ?thesis by simp
qed

text \<open>
  C7, as amended. For a ring \<open>m \<ge> 1\<close> with a measurement on each side, the pair comes from
  the first of the tiers Ultra-High, Very High, High present on both sides: the largest
  left position and the smallest right position of that tier. When none of the three is
  present on both sides, the pair is the largest of all left positions and the smallest
  of all right positions of the ring, under the label \<open>Standard\<close>.
\<close>

theorem best_pair_selection:
  assumes "0 < ring" and "ring_left rs ring \<noteq> []" and "ring_right rs ring \<noteq> []"
  shows "best_pair rs ring = Inr (Some (amended_best_pair rs ring))"
proof -
  obtain lm where lm: "group_by_precision rs (ring_left rs ring) [] = Inr lm"
    and lmap: "\<And>t. map_of lm t = (if in_tier rs t (ring_left rs ring) = [] then None
                                  else Some (in_tier rs t (ring_left rs ring)))"
    using group_by_precision_empty[of "ring_left rs ring" rs] label_of_ring_left by blast
  obtain rm where rm: "group_by_precision rs (ring_right rs ring) [] = Inr rm"
    and rmap: "\<And>t. map_of rm t = (if in_tier rs t (ring_right rs ring) = [] then None
                                  else Some (in_tier rs t (ring_right rs ring)))"
    using group_by_precision_empty[of "ring_right rs ring" rs] label_of_ring_right by blast
  show ?thesis
    using assms
    by (simp add: best_pair_def lm rm lmap rmap amended_best_pair_def tier_choice_def
        pick_nonempty)
qed


theorem best_pair_selection_witness:
  "0 < (2::nat) \<and> ring_left (sorted_readings three_measurements) 2 \<noteq> []
   \<and> ring_right (sorted_readings three_measurements) 2 \<noteq> []
   \<and> amended_best_pair (sorted_readings three_measurements) 2
      = (- (37 / 20), 103 / 50, ''Standard'')
   \<and> best_pair (sorted_readings three_measurements) 2
      = Inr (Some (- (37 / 20), 103 / 50, ''Standard''))"
proof -
  have h: "0 < (2::nat)" "ring_left (sorted_readings three_measurements) 2 \<noteq> []"
    "ring_right (sorted_readings three_measurements) 2 \<noteq> []"
    by (simp_all add: three_left three_right)
  have a: "amended_best_pair (sorted_readings three_measurements) 2
      = (- (37 / 20), 103 / 50, ''Standard'')"
    by (simp add: amended_best_pair_def tier_choice_def in_tier_def three_left three_right
        three_labels)
  from best_pair_selection[OF h] h a show ?thesis by simp
qed

end
